theory Spec2Isabelle
  imports Complex_Main
begin

section \<open>Data model\<close>

text \<open>
  The pipeline of \<^verbatim>\<open>covid19_vacc.py\<close> keeps two pandas data frames (\<^verbatim>\<open>raw_data\<close>,
  \<^verbatim>\<open>processed_data\<close>), reads a URL, and writes an SQLite file.

  A cell of a data frame is one of the values pandas can hold there. A float64 value is
  \<open>NaN\<close> (which is also pandas' marker for a missing value), a finite number, or an infinity.
  Finite numbers are exact rationals here: the rounding error and the overflow of binary
  floating point, and the sign of zero, are outside the model. \<open>Str\<close> is a text value of an
  object column (the column type that pandas 1 and 2 give to text), \<open>Stamp\<close> a parsed
  datetime64 value and \<open>NaT\<close> the missing datetime.
\<close>

datatype cell = NaN | Num rat | PInf | NInf | Str string | Stamp int | NaT

text \<open>Exceptions that the code can meet, with the part of their message that is printed.\<close>

datatype exn =
    KeyError "string list"
  | ValueError
  | TypeError
  | HTTPError nat
  | ConnectionError
  | ParserError
  | OperationalError string

datatype 'a outcome = Returned 'a | Raised exn

text \<open>
  A data frame: the column labels in order, and the rows. A row maps a column label to
  its cell; pandas keeps frames rectangular, so a row of a frame has a cell for each of
  the frame's columns, and \<open>cell\<close> reads one.
\<close>

type_synonym row = "string \<rightharpoonup> cell"

record frame =
  columns :: "string list"
  rows :: "row list"

definition cell :: "row \<Rightarrow> string \<Rightarrow> cell" where
  "cell r c = (case r c of None \<Rightarrow> NaN | Some v \<Rightarrow> v)"

text \<open>\<^verbatim>\<open>pd.isna\<close>: the missing markers.\<close>

fun isna :: "cell \<Rightarrow> bool" where
  "isna NaN = True"
| "isna NaT = True"
| "isna _ = False"

fun is_float :: "cell \<Rightarrow> bool" where
  "is_float NaN = True"
| "is_float (Num _) = True"
| "is_float PInf = True"
| "is_float NInf = True"
| "is_float _ = False"

text \<open>A number in the sense of the processed record: a float value other than \<open>NaN\<close>.\<close>

definition is_number :: "cell \<Rightarrow> bool" where
  "is_number c = (is_float c \<and> \<not> isna c)"

subsection \<open>Float arithmetic\<close>

text \<open>
  Division and multiplication of float64 values as numpy performs them element-wise,
  without raising: a finite number over zero is an infinity, zero over zero and
  infinity over infinity are \<open>NaN\<close>, and \<open>NaN\<close> propagates.
\<close>

fun fdiv :: "cell \<Rightarrow> cell \<Rightarrow> cell" where
  "fdiv (Num a) (Num b) =
     (if b \<noteq> 0 then Num (a / b) else if 0 < a then PInf else if a < 0 then NInf else NaN)"
| "fdiv (Num a) PInf = Num 0"
| "fdiv (Num a) NInf = Num 0"
| "fdiv PInf (Num b) = (if 0 \<le> b then PInf else NInf)"
| "fdiv NInf (Num b) = (if 0 \<le> b then NInf else PInf)"
| "fdiv _ _ = NaN"

fun fmul :: "cell \<Rightarrow> cell \<Rightarrow> cell" where
  "fmul (Num a) (Num b) = Num (a * b)"
| "fmul PInf (Num b) = (if 0 < b then PInf else if b < 0 then NInf else NaN)"
| "fmul NInf (Num b) = (if 0 < b then NInf else if b < 0 then PInf else NaN)"
| "fmul (Num a) PInf = (if 0 < a then PInf else if a < 0 then NInf else NaN)"
| "fmul (Num a) NInf = (if 0 < a then NInf else if a < 0 then PInf else NaN)"
| "fmul PInf PInf = PInf"
| "fmul PInf NInf = NInf"
| "fmul NInf PInf = NInf"
| "fmul NInf NInf = PInf"
| "fmul _ _ = NaN"

text \<open>\<^verbatim>\<open>Series.round(2)\<close>: scale by 100, round to the nearest integer with ties to even, scale back.\<close>

definition rint :: "rat \<Rightarrow> int" where
  "rint q =
     (let n = \<lfloor>q\<rfloor>; d = q - of_int n
      in if d < 1 / 2 then n else if 1 / 2 < d then n + 1 else if even n then n else n + 1)"

fun round2 :: "cell \<Rightarrow> cell" where
  "round2 (Num q) = Num (of_int (rint (q * 100)) / 100)"
| "round2 c = c"

text \<open>
  The operator \<^verbatim>\<open>/\<close> on two cells: Python raises \<^verbatim>\<open>TypeError\<close> when an operand is not a
  float (a text value of an object column, a datetime).
\<close>

definition truediv :: "cell \<Rightarrow> cell \<Rightarrow> exn + cell" where
  "truediv x y = (if is_float x \<and> is_float y then Inr (fdiv x y) else Inl TypeError)"

text \<open>An element-wise operation stops at the first element that raises.\<close>

fun elementwise :: "(exn + 'a) list \<Rightarrow> exn + 'a list" where
  "elementwise [] = Inr []"
| "elementwise (Inl e # _) = Inl e"
| "elementwise (Inr v # xs) = (case elementwise xs of Inl e \<Rightarrow> Inl e | Inr vs \<Rightarrow> Inr (v # vs))"

subsection \<open>Data frame operations\<close>

text \<open>
  \<^verbatim>\<open>df[[c1, ..., cn]]\<close>: a new frame with the listed columns, or \<^verbatim>\<open>KeyError\<close> naming the
  listed labels that the frame does not have.
\<close>

definition getitem :: "string list \<Rightarrow> frame \<Rightarrow> exn + frame" where
  "getitem cs f =
     (let missing = filter (\<lambda>c. c \<notin> set (columns f)) cs
      in if missing \<noteq> [] then Inl (KeyError missing)
         else Inr \<lparr>columns = cs, rows = map (\<lambda>r. r |` set cs) (rows f)\<rparr>)"

text \<open>\<^verbatim>\<open>df[c]\<close> read as a series.\<close>

definition series :: "string \<Rightarrow> frame \<Rightarrow> cell list" where
  "series c f = map (\<lambda>r. cell r c) (rows f)"

text \<open>
  \<^verbatim>\<open>df[c] = values\<close>: the assigned series is aligned with the frame's index, so the frame
  keeps its rows; a position without a value gets \<open>NaN\<close>. A new label is appended.
\<close>

definition reindex :: "nat \<Rightarrow> cell list \<Rightarrow> cell list" where
  "reindex n vs = map (\<lambda>i. if i < length vs then vs ! i else NaN) [0..<n]"

definition setitem :: "string \<Rightarrow> cell list \<Rightarrow> frame \<Rightarrow> frame" where
  "setitem c vs f =
     \<lparr>columns = (if c \<in> set (columns f) then columns f else columns f @ [c]),
      rows = map (\<lambda>(r, v). r(c \<mapsto> v)) (zip (rows f) (reindex (length (rows f)) vs))\<rparr>"

text \<open>
  \<^verbatim>\<open>df.fillna({c: v, ...}, inplace=True)\<close>: in each listed column that the frame has, a
  missing cell becomes \<open>v\<close>.
\<close>

definition fill_cell :: "string \<times> cell \<Rightarrow> row \<Rightarrow> row" where
  "fill_cell cv r = (if isna (cell r (fst cv)) then r(fst cv \<mapsto> snd cv) else r)"

definition fillna :: "(string \<times> cell) list \<Rightarrow> frame \<Rightarrow> frame" where
  "fillna d f =
     f\<lparr>rows := map (fold fill_cell (filter (\<lambda>cv. fst cv \<in> set (columns f)) d)) (rows f)\<rparr>"

text \<open>\<^verbatim>\<open>df.dropna(subset=cs)\<close>: the rows with a missing cell in one of the columns \<open>cs\<close> go.\<close>

definition dropna :: "string list \<Rightarrow> frame \<Rightarrow> frame" where
  "dropna cs f = f\<lparr>rows := filter (\<lambda>r. list_all (\<lambda>c. \<not> isna (cell r c)) cs) (rows f)\<rparr>"

section \<open>The world outside the pipeline\<close>

text \<open>
  What the libraries do is a parameter of the model: the answer of the network to the
  \<open>k\<close>-th request, the parsing of a response body by \<^verbatim>\<open>pd.read_csv\<close>, the conversion of a
  column by \<^verbatim>\<open>pd.to_datetime\<close> (which raises for the whole column), and the clock.
\<close>

datatype http_result = Unreachable | Response nat string

record env =
  net :: "string \<Rightarrow> nat \<Rightarrow> http_result"
  read_csv :: "string \<Rightarrow> exn + frame"
  to_datetime :: "cell list \<Rightarrow> exn + cell list"
  clock :: "nat \<Rightarrow> int"

text \<open>
  An SQLite file: its tables, and its indexes by name, each on a table and a list of
  columns. Index names share one name space with the tables of the file.
\<close>

record database =
  tables :: "string \<rightharpoonup> frame"
  indexes :: "string \<rightharpoonup> string \<times> string list"

definition empty_db :: database where
  "empty_db = \<lparr>tables = Map.empty, indexes = Map.empty\<rparr>"

text \<open>\<^verbatim>\<open>DROP TABLE t\<close> removes the table and every index on it.\<close>

definition drop_table :: "string \<Rightarrow> database \<Rightarrow> database" where
  "drop_table t d =
     \<lparr>tables = (tables d)(t := None),
      indexes = (\<lambda>i. case indexes d i of
                        None \<Rightarrow> None
                      | Some (t', cs) \<Rightarrow> if t' = t then None else Some (t', cs))\<rparr>"

definition create_table :: "string \<Rightarrow> frame \<Rightarrow> database \<Rightarrow> exn + database" where
  "create_table t f d =
     (if t \<in> dom (tables d) \<or> t \<in> dom (indexes d) then Inl (OperationalError ''already exists'')
      else Inr (d\<lparr>tables := (tables d)(t \<mapsto> f)\<rparr>))"

text \<open>
  \<^verbatim>\<open>df.to_sql(t, conn, if_exists='replace', index=False)\<close>: drop the table if it is there,
  then create it and insert the rows. The result is the exception raised, if any, and the
  database as the call leaves it: the drop is not undone when the creation fails.
\<close>

definition to_sql_replace :: "string \<Rightarrow> frame \<Rightarrow> database \<Rightarrow> exn option \<times> database" where
  "to_sql_replace t f d =
     (let d1 = (if t \<in> dom (tables d) then drop_table t d else d)
      in case create_table t f d1 of
           Inl x \<Rightarrow> (Some x, d1)
         | Inr d2 \<Rightarrow> (None, d2))"

text \<open>\<^verbatim>\<open>CREATE INDEX i ON t (cs)\<close>.\<close>

definition create_index :: "string \<Rightarrow> string \<Rightarrow> string list \<Rightarrow> database \<Rightarrow> exn + database" where
  "create_index i t cs d =
     (if i \<in> dom (indexes d) \<or> i \<in> dom (tables d) then Inl (OperationalError ''already exists'')
      else case tables d t of
             None \<Rightarrow> Inl (OperationalError ''no such table'')
           | Some f \<Rightarrow>
               if \<not> set cs \<subseteq> set (columns f) then Inl (OperationalError ''no such column'')
               else Inr (d\<lparr>indexes := (indexes d)(i \<mapsto> (t, cs))\<rparr>))"

section \<open>The pipeline object\<close>

text \<open>What the pipeline prints, one constructor for each \<^verbatim>\<open>print\<close> of the source.\<close>

datatype message =
    Starting
  | Extracted nat
  | ExtractionError exn
  | NoDataToTransform
  | AvailableColumns "string list"
  | MissingColumn exn
  | PleaseCheckColumnName
  | Transformed nat
  | NoProcessedData
  | DataLoaded string
  | LoadingError exn
  | Completed int

datatype stage = Extract | Transform | Load

text \<open>
  The fields of \<^verbatim>\<open>VaccinationDataETL\<close> are \<open>url\<close>, \<open>raw_data\<close> and \<open>processed_data\<close>. The
  two data fields are references: data frames are objects that the code mutates in place,
  so they live in \<open>heap\<close>, and a field holds the address of its frame (\<open>None\<close> is Python's
  \<^verbatim>\<open>None\<close>). The rest of the record is the world the object acts on: the console, the
  requests sent so far, the database files by path, the readings of the clock taken so far.
  \<open>calls\<close> is a ghost field: each method appends its name on entry. \<open>new_pipeline\<close> is
  the constructor, in a world where nothing has happened yet.
\<close>

record state =
  url :: string
  raw_data :: "nat option"
  processed_data :: "nat option"
  heap :: "frame list"
  stdout :: "message list"
  requests :: "string list"
  files :: "string \<Rightarrow> database"
  calls :: "stage list"
  clock_reads :: nat

definition new_pipeline :: "string \<Rightarrow> state" where
  "new_pipeline u =
     \<lparr>url = u, raw_data = None, processed_data = None, heap = [], stdout = [], requests = [],
      files = (\<lambda>path. empty_db), calls = [], clock_reads = 0\<rparr>"

text \<open>The frame that a field refers to.\<close>

definition frame_at :: "state \<Rightarrow> nat option \<Rightarrow> frame option" where
  "frame_at s ref =
     (case ref of
        None \<Rightarrow> None
      | Some a \<Rightarrow> if a < length (heap s) then Some (heap s ! a) else None)"

definition print :: "message \<Rightarrow> state \<Rightarrow> state" where
  "print m s = s\<lparr>stdout := stdout s @ [m]\<rparr>"

definition enter :: "stage \<Rightarrow> state \<Rightarrow> state" where
  "enter g s = s\<lparr>calls := calls s @ [g]\<rparr>"

definition alloc :: "frame \<Rightarrow> state \<Rightarrow> nat \<times> state" where
  "alloc f s = (length (heap s), s\<lparr>heap := heap s @ [f]\<rparr>)"

definition store :: "nat \<Rightarrow> frame \<Rightarrow> state \<Rightarrow> state" where
  "store a f s = s\<lparr>heap := (heap s)[a := f]\<rparr>"

definition http_get :: "env \<Rightarrow> string \<Rightarrow> state \<Rightarrow> http_result \<times> state" where
  "http_get e u s = (net e u (length (requests s)), s\<lparr>requests := requests s @ [u]\<rparr>)"

text \<open>The answers that the next two requests to the URL of the pipeline will get.\<close>

definition first_response :: "env \<Rightarrow> state \<Rightarrow> http_result" where
  "first_response e s = net e (url s) (length (requests s))"

definition second_response :: "env \<Rightarrow> state \<Rightarrow> http_result" where
  "second_response e s = net e (url s) (Suc (length (requests s)))"

definition now :: "env \<Rightarrow> state \<Rightarrow> int \<times> state" where
  "now e s = (clock e (clock_reads s), s\<lparr>clock_reads := Suc (clock_reads s)\<rparr>)"

subsection \<open>extract\<close>

text \<open>
  \<^verbatim>\<open>requests.get\<close> sends one request; \<^verbatim>\<open>raise_for_status\<close> raises for a status from 400 to
  599. \<^verbatim>\<open>pd.read_csv(self.url)\<close> is given the URL, not the response: it opens the URL
  itself, which is a second request, raises for a status outside 200 to 299, and parses
  the body it received. Every exception is caught and printed.
\<close>

definition "extract" :: "env \<Rightarrow> state \<Rightarrow> bool \<times> state" where
  "extract e s0 =
     (let s = enter Extract s0;
          (response, s1) = http_get e (url s) s
      in case response of
           Unreachable \<Rightarrow> (False, print (ExtractionError ConnectionError) s1)
         | Response status body \<Rightarrow>
             (if 400 \<le> status \<and> status < 600
              then (False, print (ExtractionError (HTTPError status)) s1)
              else
                (let (response2, s2) = http_get e (url s1) s1
                 in case response2 of
                      Unreachable \<Rightarrow> (False, print (ExtractionError ConnectionError) s2)
                    | Response status2 body2 \<Rightarrow>
                        (if \<not> (200 \<le> status2 \<and> status2 < 300)
                         then (False, print (ExtractionError (HTTPError status2)) s2)
                         else
                           (case read_csv e body2 of
                              Inl x \<Rightarrow> (False, print (ExtractionError x) s2)
                            | Inr f \<Rightarrow>
                                (let (a, s3) = alloc f s2;
                                     s4 = s3\<lparr>raw_data := Some a\<rparr>
                                 in (True, print (Extracted (length (rows f))) s4)))))))"

subsection \<open>transform\<close>

definition required_columns :: "string list" where
  "required_columns =
     [''location'', ''date'', ''people_vaccinated'', ''people_fully_vaccinated'', ''population'']"

definition fill_values :: "(string \<times> cell) list" where
  "fill_values =
     [(''people_vaccinated'', Num 0), (''people_fully_vaccinated'', Num 0),
      (''vaccination_rate'', Num 0)]"

text \<open>
  \<^verbatim>\<open>(df['people_fully_vaccinated'] / df['population'] * 100).round(2)\<close>: the division can
  raise; its result is a float series.
\<close>

definition rate_series :: "frame \<Rightarrow> exn + cell list" where
  "rate_series f =
     (case elementwise
             (map (\<lambda>r. truediv (cell r ''people_fully_vaccinated'') (cell r ''population''))
                  (rows f)) of
        Inl x \<Rightarrow> Inl x
      | Inr qs \<Rightarrow> Inr (map (\<lambda>q. round2 (fmul q (Num 100))) qs))"

text \<open>
  The selection is copied into a new object, whose address goes to \<open>processed_data\<close>;
  the later steps update that object in place. Only the \<^verbatim>\<open>KeyError\<close> of the selection is
  caught: an exception of \<^verbatim>\<open>pd.to_datetime\<close> or of the division leaves the method, with the
  object as the steps before it left it.
\<close>

definition transform :: "env \<Rightarrow> state \<Rightarrow> bool outcome \<times> state" where
  "transform e s0 =
     (let s = enter Transform s0
      in case raw_data s of
           None \<Rightarrow> (Returned False, print NoDataToTransform s)
         | Some a \<Rightarrow>
             (let raw = heap s ! a;
                  s1 = print (AvailableColumns (columns raw)) s
              in case getitem required_columns raw of
                   Inl x \<Rightarrow>
                     (Returned False, print PleaseCheckColumnName (print (MissingColumn x) s1))
                 | Inr sel \<Rightarrow>
                     (let (p, s2) = alloc sel s1;
                          s3 = s2\<lparr>processed_data := Some p\<rparr>
                      in case to_datetime e (series ''date'' sel) of
                           Inl x \<Rightarrow> (Raised x, s3)
                         | Inr ds \<Rightarrow>
                             (let f1 = setitem ''date'' ds sel;
                                  s4 = store p f1 s3
                              in case rate_series f1 of
                                   Inl x \<Rightarrow> (Raised x, s4)
                                 | Inr rs \<Rightarrow>
                                     (let f2 = setitem ''vaccination_rate'' rs f1;
                                          f3 = fillna fill_values f2;
                                          f4 = dropna [''location''] f3;
                                          s5 = store p f4 s4
                                      in (Returned True,
                                          print (Transformed (length (rows f4))) s5))))))"

subsection \<open>load\<close>

text \<open>
  \<^verbatim>\<open>sqlite3.connect\<close> opens the file at the path (an empty database if it is new). The
  table is written and committed by \<^verbatim>\<open>to_sql\<close> before the index is created, so a failure of
  \<^verbatim>\<open>CREATE INDEX\<close> leaves the new table in the file. Every exception is caught and printed.
  The connection itself is not part of the model.
\<close>

definition load :: "state \<Rightarrow> string \<Rightarrow> bool \<times> state" where
  "load s0 db_path =
     (let s = enter Load s0
      in case processed_data s of
           None \<Rightarrow> (False, print NoProcessedData s)
         | Some p \<Rightarrow>
             (let (raised, d1) = to_sql_replace ''vaccination_data'' (heap s ! p) (files s db_path);
                  s1 = s\<lparr>files := (files s)(db_path := d1)\<rparr>
              in case raised of
                   Some x \<Rightarrow> (False, print (LoadingError x) s1)
                 | None \<Rightarrow>
                     (case create_index ''idx_location_date'' ''vaccination_data''
                             [''location'', ''date''] d1 of
                        Inl x \<Rightarrow> (False, print (LoadingError x) s1)
                      | Inr d2 \<Rightarrow>
                          (True,
                           print (DataLoaded db_path)
                             (s1\<lparr>files := (files s1)(db_path := d2)\<rparr>)))))"

subsection \<open>run_etl_pipeline\<close>

definition default_db_path :: string where
  "default_db_path = ''vaccination_data.db''"

definition run_etl_pipeline :: "env \<Rightarrow> state \<Rightarrow> bool outcome \<times> state" where
  "run_etl_pipeline e s0 =
     (let s1 = print Starting s0;
          (start_time, s2) = now e s1;
          (extract_success, s3) = extract e s2
      in if \<not> extract_success then (Returned False, s3)
         else
           (case transform e s3 of
              (Raised x, s4) \<Rightarrow> (Raised x, s4)
            | (Returned transform_success, s4) \<Rightarrow>
                (if \<not> transform_success then (Returned False, s4)
                 else
                   (let (load_success, s5) = load s4 default_db_path;
                        (end_time, s6) = now e s5;
                        s7 = print (Completed (end_time - start_time)) s6
                    in (Returned load_success, s7)))))"

text \<open>The states in which \<^verbatim>\<open>run_etl_pipeline\<close> calls its three stages.\<close>

definition before_extract :: "env \<Rightarrow> state \<Rightarrow> state" where
  "before_extract e s0 = snd (now e (print Starting s0))"

definition before_transform :: "env \<Rightarrow> state \<Rightarrow> state" where
  "before_transform e s0 = snd (extract e (before_extract e s0))"

definition before_load :: "env \<Rightarrow> state \<Rightarrow> state" where
  "before_load e s0 = snd (transform e (before_transform e s0))"

subsection \<open>main\<close>

definition owid_url :: string where
  "owid_url =
     ''https://raw.githubusercontent.com/owid/covid-19-data/master/public/data/vaccinations/vaccinations.csv''"

definition main :: "env \<Rightarrow> bool outcome \<times> state" where
  "main e = run_etl_pipeline e (new_pipeline owid_url)"

section \<open>Notions used in the statements\<close>

text \<open>
  The row that \<^verbatim>\<open>transform\<close> makes of a raw row \<open>r\<close> whose converted date is \<open>d\<close>: the
  five selected cells with the date replaced, the rate added, and the fill applied.
\<close>

definition result_row :: "row \<times> cell \<Rightarrow> row" where
  "result_row rd =
     fold fill_cell fill_values
       ((fst rd |` set required_columns)
          (''date'' \<mapsto> snd rd,
           ''vaccination_rate'' \<mapsto>
             round2 (fmul (fdiv (cell (fst rd) ''people_fully_vaccinated'')
                                (cell (fst rd) ''population'')) (Num 100))))"

definition selection :: "frame \<Rightarrow> frame" where
  "selection raw =
     \<lparr>columns = required_columns, rows = map (\<lambda>r. r |` set required_columns) (rows raw)\<rparr>"

text \<open>The two columns of the division hold float values only.\<close>

definition numeric :: "frame \<Rightarrow> bool" where
  "numeric raw =
     (\<forall>r\<in>set (rows raw).
        is_float (cell r ''people_fully_vaccinated'') \<and> is_float (cell r ''population''))"

definition finished :: "cell list \<Rightarrow> frame \<Rightarrow> frame" where
  "finished ds raw =
     \<lparr>columns = required_columns @ [''vaccination_rate''],
      rows = map result_row
               (filter (\<lambda>rd. \<not> isna (cell (fst rd) ''location''))
                  (zip (rows raw) (reindex (length (rows raw)) ds)))\<rparr>"

fun reports_duration :: "message \<Rightarrow> bool" where
  "reports_duration (Completed _) = True"
| "reports_duration _ = False"

section \<open>Sample inputs\<close>

text \<open>
  Three raw rows: a complete one, one without the two counts, and one without a location.
\<close>

definition usa_row :: row where
  "usa_row =
     [''location'' \<mapsto> Str ''USA'', ''date'' \<mapsto> Str ''2021-01-01'',
      ''people_vaccinated'' \<mapsto> Num 100, ''people_fully_vaccinated'' \<mapsto> Num 50,
      ''population'' \<mapsto> Num 1000]"

definition fra_row :: row where
  "fra_row =
     [''location'' \<mapsto> Str ''FRA'', ''date'' \<mapsto> Str ''2021-01-01'',
      ''people_vaccinated'' \<mapsto> NaN, ''people_fully_vaccinated'' \<mapsto> NaN,
      ''population'' \<mapsto> Num 500]"

definition unlocated_row :: row where
  "unlocated_row =
     [''location'' \<mapsto> NaN, ''date'' \<mapsto> Str ''2021-01-02'',
      ''people_vaccinated'' \<mapsto> Num 10, ''people_fully_vaccinated'' \<mapsto> Num 5,
      ''population'' \<mapsto> Num 100]"

definition sample_frame :: frame where
  "sample_frame = \<lparr>columns = required_columns, rows = [usa_row, fra_row, unlocated_row]\<rparr>"

text \<open>A frame whose \<^verbatim>\<open>people_vaccinated\<close> column holds text.\<close>

definition text_frame :: frame where
  "text_frame =
     \<lparr>columns = required_columns,
      rows = [usa_row(''people_vaccinated'' \<mapsto> Str ''unknown'')]\<rparr>"

text \<open>A frame with a date that no parser accepts.\<close>

definition bad_date_frame :: frame where
  "bad_date_frame =
     \<lparr>columns = required_columns, rows = [usa_row(''date'' \<mapsto> Str ''not-a-date'')]\<rparr>"

text \<open>A frame without the column \<^verbatim>\<open>population\<close>.\<close>

definition unpopulated_frame :: frame where
  "unpopulated_frame =
     \<lparr>columns = [''location'', ''date'', ''people_vaccinated'', ''people_fully_vaccinated''],
      rows = [usa_row |` {''location'', ''date'', ''people_vaccinated'', ''people_fully_vaccinated''}]\<rparr>"

text \<open>
  A stand-in for \<^verbatim>\<open>pd.to_datetime\<close> that knows two dates (as seconds since 1970) and
  raises \<^verbatim>\<open>ValueError\<close> on any other text.
\<close>

definition known_dates :: "(string \<times> int) list" where
  "known_dates = [(''2021-01-01'', 1609459200), (''2021-01-02'', 1609545600)]"

fun sample_date :: "cell \<Rightarrow> cell option" where
  "sample_date (Str t) = map_option Stamp (map_of known_dates t)"
| "sample_date NaN = Some NaT"
| "sample_date _ = None"

definition sample_to_datetime :: "cell list \<Rightarrow> exn + cell list" where
  "sample_to_datetime cs =
     (case those (map sample_date cs) of None \<Rightarrow> Inl ValueError | Some ds \<Rightarrow> Inr ds)"

text \<open>
  A stand-in for the parser of \<^verbatim>\<open>pd.read_csv\<close> that understands a body of one header
  field and no records.
\<close>

definition header_only_csv :: "string \<Rightarrow> exn + frame" where
  "header_only_csv body =
     (if body \<noteq> [] \<and> CHR '','' \<notin> set body \<and> CHR 10 \<notin> set body
      then Inr \<lparr>columns = [body], rows = []\<rparr> else Inl ParserError)"

text \<open>
  A world in which every request is answered with status 200 and a body that
  \<^verbatim>\<open>pd.read_csv\<close> parses to the frame \<open>f\<close>, with a clock that advances 5 at each reading.
\<close>

definition serving :: "frame \<Rightarrow> env" where
  "serving f =
     \<lparr>net = (\<lambda>u k. Response 200 ''location,date''), read_csv = (\<lambda>body. Inr f),
      to_datetime = sample_to_datetime, clock = (\<lambda>k. 5 * int k)\<rparr>"

text \<open>A world in which the server answers 404.\<close>

definition not_found :: env where
  "not_found = (serving sample_frame)\<lparr>net := (\<lambda>u k. Response 404 [])\<rparr>"

text \<open>A world in which the resource changes between two requests.\<close>

definition changing :: env where
  "changing =
     \<lparr>net = (\<lambda>u k. if k = 0 then Response 200 ''first'' else Response 200 ''second''),
      read_csv = header_only_csv, to_datetime = sample_to_datetime, clock = (\<lambda>k. 5 * int k)\<rparr>"

text \<open>A pipeline object that holds the frame \<open>f\<close> as its raw data.\<close>

definition holding :: "frame \<Rightarrow> state" where
  "holding f = (new_pipeline owid_url)\<lparr>raw_data := Some 0, heap := [f]\<rparr>"

text \<open>The dates of the three sample rows, converted.\<close>

definition sample_stamps :: "cell list" where
  "sample_stamps = [Stamp 1609459200, Stamp 1609459200, Stamp 1609545600]"

section \<open>Properties of the frame operations\<close>

lemma elementwise_truediv:
  "elementwise (map (\<lambda>r. truediv (a r) (b r)) xs) =
     (if \<forall>r\<in>set xs. is_float (a r) \<and> is_float (b r)
      then Inr (map (\<lambda>r. fdiv (a r) (b r)) xs) else Inl TypeError)"
  by (induction xs) (simp_all add: truediv_def)

lemma rate_series_eq:
  "rate_series f =
     (if \<forall>r\<in>set (rows f). is_float (cell r ''people_fully_vaccinated'')
                            \<and> is_float (cell r ''population'')
      then Inr (map (\<lambda>r. round2 (fmul (fdiv (cell r ''people_fully_vaccinated'')
                                              (cell r ''population'')) (Num 100))) (rows f))
      else Inl TypeError)"
  by (simp add: rate_series_def elementwise_truediv)

lemma length_reindex: "length (reindex n vs) = n"
  by (simp add: reindex_def)

lemma reindex_same: "length vs = n \<Longrightarrow> reindex n vs = vs"
  by (auto simp: reindex_def intro: nth_equalityI)

lemma getitem_eq:
  "getitem cs f =
     (if set cs \<subseteq> set (columns f)
      then Inr \<lparr>columns = cs, rows = map (\<lambda>r. r |` set cs) (rows f)\<rparr>
      else Inl (KeyError (filter (\<lambda>c. c \<notin> set (columns f)) cs)))"
  by (auto simp: getitem_def Let_def filter_empty_conv)

lemma rows_setitem_same:
  "length vs = length (rows f) \<Longrightarrow>
     rows (setitem c vs f) = map (\<lambda>(r, v). r(c \<mapsto> v)) (zip (rows f) vs)"
  by (simp add: setitem_def reindex_same)

lemma result_row_apply:
  "result_row (r, d) k =
     (if k = ''vaccination_rate'' then
        (let v = round2 (fmul (fdiv (cell r ''people_fully_vaccinated'') (cell r ''population'')) (Num 100))
         in Some (if isna v then Num 0 else v))
      else if k = ''date'' then Some d
      else if k = ''people_vaccinated'' \<or> k = ''people_fully_vaccinated'' then
        Some (if isna (cell r k) then Num 0 else cell r k)
      else if k = ''location'' \<or> k = ''population'' then r k
      else None)"
  by (simp add: result_row_def fill_values_def required_columns_def fill_cell_def cell_def
        restrict_map_def Let_def split: option.splits)

lemma result_row_location: "result_row rd ''location'' = fst rd ''location''"
  by (cases rd) (simp add: result_row_apply)

lemma cell_selected:
  "cell ((r |` set required_columns)(''date'' \<mapsto> d)) ''people_fully_vaccinated'' =
     cell r ''people_fully_vaccinated''"
  "cell ((r |` set required_columns)(''date'' \<mapsto> d)) ''population'' = cell r ''population''"
  by (simp_all add: cell_def required_columns_def)

lemma rows_date:
  "rows (setitem ''date'' ds (selection raw)) =
     map (\<lambda>rd. (fst rd |` set required_columns)(''date'' \<mapsto> snd rd))
       (zip (rows raw) (reindex (length (rows raw)) ds))"
  by (simp add: setitem_def selection_def zip_map1 case_prod_unfold)

lemma rate_series_date:
  "rate_series (setitem ''date'' ds (selection raw)) =
     (if numeric raw
      then Inr (map (\<lambda>rd. round2 (fmul (fdiv (cell (fst rd) ''people_fully_vaccinated'')
                                    (cell (fst rd) ''population'')) (Num 100)))
                  (zip (rows raw) (reindex (length (rows raw)) ds)))
      else Inl TypeError)"
proof -
  let ?Z = "zip (rows raw) (reindex (length (rows raw)) ds)"
  have m: "map fst ?Z = rows raw"
    by (simp add: length_reindex)
  have "numeric raw \<longleftrightarrow>
       (\<forall>r\<in>set (map fst ?Z). is_float (cell r ''people_fully_vaccinated'')
                      \<and> is_float (cell r ''population''))"
    by (simp only: m numeric_def)
  then have "numeric raw \<longleftrightarrow>
       (\<forall>rd\<in>set ?Z. is_float (cell (fst rd) ''people_fully_vaccinated'')
                      \<and> is_float (cell (fst rd) ''population''))"
    by simp
  then show ?thesis
    by (simp add: rate_series_eq rows_date cell_selected comp_def)
qed

lemma finished_frame:
  "dropna [''location'']
     (fillna fill_values
        (setitem ''vaccination_rate''
           (map (\<lambda>rd. round2 (fmul (fdiv (cell (fst rd) ''people_fully_vaccinated'')
                                    (cell (fst rd) ''population'')) (Num 100)))
              (zip (rows raw) (reindex (length (rows raw)) ds)))
           (setitem ''date'' ds (selection raw)))) =
   finished ds raw"
proof -
  let ?Z = "zip (rows raw) (reindex (length (rows raw)) ds)"
  let ?rate = "\<lambda>rd. round2 (fmul (fdiv (cell (fst rd) ''people_fully_vaccinated'')
                                    (cell (fst rd) ''population'')) (Num 100))"
  let ?f1 = "setitem ''date'' ds (selection raw)"
  let ?f2 = "setitem ''vaccination_rate'' (map ?rate ?Z) ?f1"
  have len: "length ?Z = length (rows raw)" by (simp add: length_reindex)
  have c2: "columns ?f2 = required_columns @ [''vaccination_rate'']"
    by (simp add: setitem_def selection_def required_columns_def)
  have r2: "rows ?f2 =
              map (\<lambda>rd. (fst rd |` set required_columns)(''date'' \<mapsto> snd rd,
                          ''vaccination_rate'' \<mapsto> ?rate rd)) ?Z"
    by (simp add: rows_setitem_same rows_date len zip_map_map zip_same_conv_map case_prod_unfold
          comp_def del: fun_upd_apply)
  have keys: "filter (\<lambda>cv. fst cv \<in> set (required_columns @ [''vaccination_rate''])) fill_values = fill_values"
    by (simp add: fill_values_def required_columns_def)
  have r3: "rows (fillna fill_values ?f2) = map result_row ?Z"
    unfolding fillna_def c2 keys
    by (simp add: r2 result_row_def comp_def del: fun_upd_apply)
  have loc: "\<And>rd. cell (result_row rd) ''location'' = cell (fst rd) ''location''"
    by (simp add: cell_def result_row_location)
  have "columns (dropna [''location''] (fillna fill_values ?f2)) = required_columns @ [''vaccination_rate'']"
    by (simp add: dropna_def fillna_def c2)
  moreover have "rows (dropna [''location''] (fillna fill_values ?f2)) =
      map result_row (filter (\<lambda>rd. \<not> isna (cell (fst rd) ''location'')) ?Z)"
    by (simp add: dropna_def r3 filter_map comp_def loc)
  ultimately show ?thesis
    by (simp add: finished_def)
qed

lemma series_selection: "series ''date'' (selection raw) = series ''date'' raw"
  by (simp add: series_def selection_def cell_def required_columns_def)

section \<open>The paths of transform\<close>

lemma transform_None:
  "raw_data s = None \<Longrightarrow> transform e s = (Returned False, print NoDataToTransform (enter Transform s))"
  by (simp add: transform_def enter_def)

lemma transform_missing:
  assumes "raw_data s = Some a" "\<not> set required_columns \<subseteq> set (columns (heap s ! a))"
  shows "transform e s =
     (Returned False,
      print PleaseCheckColumnName
        (print (MissingColumn (KeyError (filter (\<lambda>c. c \<notin> set (columns (heap s ! a))) required_columns)))
           (print (AvailableColumns (columns (heap s ! a))) (enter Transform s))))"
  using assms by (simp add: transform_def enter_def getitem_eq Let_def)

lemma transform_selected:
  assumes "raw_data s = Some a" "set required_columns \<subseteq> set (columns (heap s ! a))"
  shows "transform e s =
     (let s3 = (print (AvailableColumns (columns (heap s ! a))) (enter Transform s))
                 \<lparr>heap := heap s @ [selection (heap s ! a)], processed_data := Some (length (heap s))\<rparr>
      in case to_datetime e (series ''date'' (heap s ! a)) of
           Inl x \<Rightarrow> (Raised x, s3)
         | Inr ds \<Rightarrow>
             if numeric (heap s ! a)
             then (Returned True,
                   print (Transformed (length (rows (finished ds (heap s ! a)))))
                     (s3\<lparr>heap := heap s @ [finished ds (heap s ! a)]\<rparr>))
             else (Raised TypeError,
                   s3\<lparr>heap := heap s @ [setitem ''date'' ds (selection (heap s ! a))]\<rparr>))"
proof -
  have sel: "getitem required_columns (heap s ! a) = Inr (selection (heap s ! a))"
    using assms(2) by (simp add: getitem_eq selection_def)
  show ?thesis
    unfolding transform_def
    by (simp add: assms(1) sel enter_def Let_def alloc_def print_def store_def series_selection
          rate_series_date finished_frame split: sum.splits)
qed

lemma transform_True:
  assumes "fst (transform e s) = Returned True"
  obtains a ds where "raw_data s = Some a"
    and "set required_columns \<subseteq> set (columns (heap s ! a))"
    and "to_datetime e (series ''date'' (heap s ! a)) = Inr ds"
    and "numeric (heap s ! a)"
    and "frame_at (snd (transform e s)) (processed_data (snd (transform e s))) =
           Some (finished ds (heap s ! a))"
proof (cases "raw_data s")
  case None
  with assms show ?thesis by (simp add: transform_None)
next
  case (Some a)
  show ?thesis
  proof (cases "set required_columns \<subseteq> set (columns (heap s ! a))")
    case False
    with Some assms show ?thesis by (simp add: transform_missing)
  next
    case True
    note eq = transform_selected[OF Some True, of e]
    show ?thesis
    proof (cases "to_datetime e (series ''date'' (heap s ! a))")
      case (Inl x)
      with eq assms show ?thesis by (simp add: Let_def)
    next
      case (Inr ds)
      with eq assms have num: "numeric (heap s ! a)"
        by (simp add: Let_def split: if_splits)
      with eq Inr have "frame_at (snd (transform e s)) (processed_data (snd (transform e s))) =
           Some (finished ds (heap s ! a))"
        by (simp add: Let_def frame_at_def print_def)
      with Some True Inr num that show ?thesis by blast
    qed
  qed
qed

lemma finished_rows_D:
  assumes "r \<in> set (rows (finished ds raw))"
  obtains r0 d where "r0 \<in> set (rows raw)" "\<not> isna (cell r0 ''location'')" "r = result_row (r0, d)"
proof -
  from assms obtain rd where rd: "rd \<in> set (zip (rows raw) (reindex (length (rows raw)) ds))"
      "\<not> isna (cell (fst rd) ''location'')" "r = result_row rd"
    by (auto simp: finished_def)
  from rd(1) have "fst rd \<in> set (rows raw)"
    by (metis prod.collapse set_zip_leftD)
  with rd that[of "fst rd" "snd rd"] show ?thesis by simp
qed

lemma list_all2_filter_zip:
  assumes "length xs = length ys"
  shows "list_all2 (\<lambda>x r. \<exists>y. r = H (x, y)) (filter P xs)
           (map H (filter (\<lambda>xy. P (fst xy)) (zip xs ys)))"
  using assms by (induction xs ys rule: list_induct2) auto

lemma finished_rows_all2:
  "list_all2 (\<lambda>r0 r. \<exists>d. r = result_row (r0, d))
     (filter (\<lambda>r0. \<not> isna (cell r0 ''location'')) (rows raw)) (rows (finished ds raw))"
  unfolding finished_def frame.simps
  by (rule list_all2_filter_zip) (simp add: length_reindex)

lemma is_float_fdiv: "is_float (fdiv x y)"
  by (cases x; cases y) simp_all

lemma is_float_fmul: "is_float (fmul x y)"
  by (cases x; cases y) simp_all

lemma is_float_round2: "is_float x \<Longrightarrow> is_float (round2 x)"
  by (cases x) simp_all

lemma isna_float: "is_float x \<Longrightarrow> isna x \<longleftrightarrow> x = NaN"
  by (cases x) simp_all

lemma fdiv_NaN: "fdiv NaN y = NaN" "fdiv x NaN = NaN"
  by (cases y; simp) (cases x; simp)



lemma transform_effects:
  "raw_data (snd (transform e s)) = raw_data s"
  "files (snd (transform e s)) = files s"
  "requests (snd (transform e s)) = requests s"
  "clock_reads (snd (transform e s)) = clock_reads s"
  "url (snd (transform e s)) = url s"
  "calls (snd (transform e s)) = calls s @ [Transform]"
  "\<exists>fs. heap (snd (transform e s)) = heap s @ fs"
  "\<exists>ms. stdout (snd (transform e s)) = stdout s @ ms \<and> \<not> list_ex reports_duration ms"
proof -
  consider (none) "raw_data s = None"
    | (missing) a where "raw_data s = Some a" "\<not> set required_columns \<subseteq> set (columns (heap s ! a))"
    | (selected) a where "raw_data s = Some a" "set required_columns \<subseteq> set (columns (heap s ! a))"
    by (cases "raw_data s") auto
  then have "raw_data (snd (transform e s)) = raw_data s \<and>
    files (snd (transform e s)) = files s \<and>
    requests (snd (transform e s)) = requests s \<and>
    clock_reads (snd (transform e s)) = clock_reads s \<and>
    url (snd (transform e s)) = url s \<and>
    calls (snd (transform e s)) = calls s @ [Transform] \<and>
    (\<exists>fs. heap (snd (transform e s)) = heap s @ fs) \<and>
    (\<exists>ms. stdout (snd (transform e s)) = stdout s @ ms \<and> \<not> list_ex reports_duration ms)"
  proof cases
    case none
    then show ?thesis by (simp add: transform_None print_def enter_def)
  next
    case missing
    then show ?thesis by (simp add: transform_missing print_def enter_def)
  next
    case selected
    show ?thesis
      unfolding transform_selected[OF selected]
      by (simp add: Let_def print_def enter_def split: sum.splits)
  qed
  then show "raw_data (snd (transform e s)) = raw_data s"
    "files (snd (transform e s)) = files s"
    "requests (snd (transform e s)) = requests s"
    "clock_reads (snd (transform e s)) = clock_reads s"
    "url (snd (transform e s)) = url s"
    "calls (snd (transform e s)) = calls s @ [Transform]"
    "\<exists>fs. heap (snd (transform e s)) = heap s @ fs"
    "\<exists>ms. stdout (snd (transform e s)) = stdout s @ ms \<and> \<not> list_ex reports_duration ms"
    by blast+
qed

lemma transform_not_False:
  assumes "raw_data s = Some a" and "set required_columns \<subseteq> set (columns (heap s ! a))"
  shows "fst (transform e s) \<noteq> Returned False"
  unfolding transform_selected[OF assms]
  by (simp add: Let_def split: sum.splits)

section \<open>The paths of extract\<close>

lemma extract_eq:
  "extract e s =
     (let s1 = (enter Extract s)\<lparr>requests := requests s @ [url s]\<rparr>;
          s2 = (enter Extract s)\<lparr>requests := requests s @ [url s, url s]\<rparr>
      in case first_response e s of
           Unreachable \<Rightarrow> (False, print (ExtractionError ConnectionError) s1)
         | Response status body \<Rightarrow>
             if 400 \<le> status \<and> status < 600
             then (False, print (ExtractionError (HTTPError status)) s1)
             else
               (case second_response e s of
                  Unreachable \<Rightarrow> (False, print (ExtractionError ConnectionError) s2)
                | Response status2 body2 \<Rightarrow>
                    if \<not> (200 \<le> status2 \<and> status2 < 300)
                    then (False, print (ExtractionError (HTTPError status2)) s2)
                    else
                      (case read_csv e body2 of
                         Inl x \<Rightarrow> (False, print (ExtractionError x) s2)
                       | Inr f \<Rightarrow>
                           (True,
                            print (Extracted (length (rows f)))
                              (s2\<lparr>heap := heap s @ [f], raw_data := Some (length (heap s))\<rparr>)))))"
  by (simp add: extract_def http_get_def first_response_def second_response_def enter_def
        alloc_def Let_def split: http_result.splits sum.splits)

lemma extract_effects:
  "files (snd (extract e s)) = files s"
  "clock_reads (snd (extract e s)) = clock_reads s"
  "url (snd (extract e s)) = url s"
  "processed_data (snd (extract e s)) = processed_data s"
  "calls (snd (extract e s)) = calls s @ [Extract]"
  "\<exists>ms. stdout (snd (extract e s)) = stdout s @ ms \<and> \<not> list_ex reports_duration ms"
  by (simp_all add: extract_eq Let_def print_def enter_def split: http_result.splits sum.splits)

lemma extract_failed:
  "\<not> fst (extract e s) \<Longrightarrow> raw_data (snd (extract e s)) = raw_data s \<and> heap (snd (extract e s)) = heap s"
  by (auto simp: extract_eq Let_def print_def enter_def split: http_result.splits sum.splits if_splits)

section \<open>The paths of load\<close>

lemma load_effects:
  "clock_reads (snd (load s path)) = clock_reads s"
  "heap (snd (load s path)) = heap s"
  "raw_data (snd (load s path)) = raw_data s"
  "processed_data (snd (load s path)) = processed_data s"
  "calls (snd (load s path)) = calls s @ [Load]"
  "\<exists>ms. stdout (snd (load s path)) = stdout s @ ms \<and> \<not> list_ex reports_duration ms"
  by (simp_all add: load_def Let_def print_def enter_def split: option.splits sum.splits prod.splits)

lemma load_new_file:
  assumes "frame_at s (processed_data s) = Some df" and "files s path = empty_db"
      and "{''location'', ''date''} \<subseteq> set (columns df)"
  shows "fst (load s path)"
    and "tables (files (snd (load s path)) path) = [''vaccination_data'' \<mapsto> df]"
    and "indexes (files (snd (load s path)) path) =
           [''idx_location_date'' \<mapsto> (''vaccination_data'', [''location'', ''date''])]"
    and "stdout (snd (load s path)) = stdout s @ [DataLoaded path]"
proof -
  from assms(1) obtain p where p: "processed_data s = Some p" "heap s ! p = df"
    by (auto simp: frame_at_def split: option.splits if_splits)
  have "load s path =
      (True,
       print (DataLoaded path)
         ((enter Load s)\<lparr>files := (files s)
            (path := \<lparr>tables = [''vaccination_data'' \<mapsto> df],
                      indexes = [''idx_location_date'' \<mapsto>
                                   (''vaccination_data'', [''location'', ''date''])]\<rparr>)\<rparr>))"
    using p assms(2,3)
    by (simp add: load_def Let_def to_sql_replace_def create_table_def create_index_def
          enter_def print_def empty_db_def)
  then show "fst (load s path)"
    and "tables (files (snd (load s path)) path) = [''vaccination_data'' \<mapsto> df]"
    and "indexes (files (snd (load s path)) path) =
           [''idx_location_date'' \<mapsto> (''vaccination_data'', [''location'', ''date''])]"
    and "stdout (snd (load s path)) = stdout s @ [DataLoaded path]"
    by (simp_all add: print_def enter_def)
qed

section \<open>The paths of run_etl_pipeline\<close>

lemma before_extract_simps:
  "stdout (before_extract e s0) = stdout s0 @ [Starting]"
  "clock_reads (before_extract e s0) = Suc (clock_reads s0)"
  "calls (before_extract e s0) = calls s0"
  "files (before_extract e s0) = files s0"
  "heap (before_extract e s0) = heap s0"
  "url (before_extract e s0) = url s0"
  "requests (before_extract e s0) = requests s0"
  "raw_data (before_extract e s0) = raw_data s0"
  "processed_data (before_extract e s0) = processed_data s0"
  by (simp_all add: before_extract_def now_def print_def)

lemma run_eq:
  "run_etl_pipeline e s0 =
     (if \<not> fst (extract e (before_extract e s0)) then (Returned False, before_transform e s0)
      else
        (case fst (transform e (before_transform e s0)) of
           Raised x \<Rightarrow> (Raised x, before_load e s0)
         | Returned transform_success \<Rightarrow>
             if \<not> transform_success then (Returned False, before_load e s0)
             else
               (Returned (fst (load (before_load e s0) default_db_path)),
                print (Completed (clock e (Suc (clock_reads s0)) - clock e (clock_reads s0)))
                  (snd (now e (snd (load (before_load e s0) default_db_path)))))))"
proof -
  have t: "clock_reads (snd (load (before_load e s0) default_db_path)) = Suc (clock_reads s0)"
    by (simp add: load_effects before_load_def transform_effects before_transform_def
          extract_effects before_extract_simps)
  have fst_now: "fst (now e s) = clock e (clock_reads s)" for s
    by (simp add: now_def)
  have start: "clock_reads (print Starting s0) = clock_reads s0"
    by (simp add: print_def)
  note unfolded = t[unfolded before_load_def before_transform_def before_extract_def]
  show ?thesis
    unfolding run_etl_pipeline_def before_load_def before_transform_def before_extract_def
    by (simp add: Let_def case_prod_unfold fst_now start unfolded split: outcome.splits)
qed

lemma before_transform_simps:
  "files (before_transform e s0) = files s0"
  "calls (before_transform e s0) = calls s0 @ [Extract]"
  "clock_reads (before_transform e s0) = Suc (clock_reads s0)"
  by (simp_all add: before_transform_def extract_effects before_extract_simps)

lemma transform_raises:
  assumes "raw_data s = Some a" and "set required_columns \<subseteq> set (columns (heap s ! a))"
      and "to_datetime e (series ''date'' (heap s ! a)) = Inl x"
  shows "fst (transform e s) = Raised x"
  unfolding transform_selected[OF assms(1,2)] using assms(3) by (simp add: Let_def)

lemma transform_succeeds:
  assumes "raw_data s = Some a" and "set required_columns \<subseteq> set (columns (heap s ! a))"
      and "to_datetime e (series ''date'' (heap s ! a)) = Inr ds" and "numeric (heap s ! a)"
  shows "fst (transform e s) = Returned True"
  unfolding transform_selected[OF assms(1,2)] using assms(3,4) by (simp add: Let_def)

section \<open>The sample inputs, evaluated\<close>

lemma sample_columns: "set required_columns \<subseteq> set (columns sample_frame)"
  by (simp add: sample_frame_def)

lemma sample_numeric: "numeric sample_frame"
  by (simp add: numeric_def sample_frame_def usa_row_def fra_row_def unlocated_row_def cell_def)

lemma sample_dates: "sample_to_datetime (series ''date'' sample_frame) = Inr sample_stamps"
  by (simp add: sample_to_datetime_def series_def sample_frame_def usa_row_def fra_row_def
        unlocated_row_def cell_def known_dates_def sample_stamps_def)

lemma sample_finished_rows:
  "rows (finished sample_stamps sample_frame) =
     [result_row (usa_row, Stamp 1609459200), result_row (fra_row, Stamp 1609459200)]"
  by (simp add: finished_def sample_frame_def sample_stamps_def reindex_same
        usa_row_def fra_row_def unlocated_row_def cell_def)

lemma holding_simps:
  "raw_data (holding f) = Some 0" "heap (holding f) = [f]" "heap (holding f) ! 0 = f"
  "stdout (holding f) = []" "calls (holding f) = []" "files (holding f) = (\<lambda>path. empty_db)"
  by (simp_all add: holding_def new_pipeline_def)

lemma serving_simps:
  "to_datetime (serving f) = sample_to_datetime" "read_csv (serving f) body = Inr f"
  "net (serving f) u k = Response 200 ''location,date''" "clock (serving f) k = 5 * int k"
  by (simp_all add: serving_def)

lemma sample_transform:
  "fst (transform (serving f) (holding sample_frame)) = Returned True"
  "frame_at (snd (transform (serving f) (holding sample_frame)))
     (processed_data (snd (transform (serving f) (holding sample_frame)))) =
   Some (finished sample_stamps sample_frame)"
  using transform_selected[of "holding sample_frame" 0 "serving f"]
  by (simp_all add: holding_simps serving_simps sample_columns sample_numeric sample_dates
        Let_def frame_at_def print_def)


lemma sample_located:
  "filter (\<lambda>r0. \<not> isna (cell r0 ''location'')) (rows sample_frame) = [usa_row, fra_row]"
  by (simp add: sample_frame_def usa_row_def fra_row_def unlocated_row_def cell_def)

lemma fra_result:
  "cell (result_row (fra_row, d)) ''population'' = Num 500"
  "cell (result_row (fra_row, d)) ''people_fully_vaccinated'' = Num 0"
  "cell (result_row (fra_row, d)) ''people_vaccinated'' = Num 0"
  "cell (result_row (fra_row, d)) ''vaccination_rate'' = Num 0"
  "cell (result_row (fra_row, d)) ''location'' = Str ''FRA''"
  by (simp_all add: cell_def result_row_apply fra_row_def)

lemma text_transform:
  "fst (transform (serving f) (holding text_frame)) = Returned True"
  "frame_at (snd (transform (serving f) (holding text_frame)))
     (processed_data (snd (transform (serving f) (holding text_frame)))) =
   Some (finished [Stamp 1609459200] text_frame)"
proof -
  have c: "set required_columns \<subseteq> set (columns text_frame)"
    by (simp add: text_frame_def)
  have n: "numeric text_frame"
    by (simp add: numeric_def text_frame_def usa_row_def cell_def)
  have d: "sample_to_datetime (series ''date'' text_frame) = Inr [Stamp 1609459200]"
    by (simp add: sample_to_datetime_def series_def text_frame_def usa_row_def cell_def known_dates_def)
  show "fst (transform (serving f) (holding text_frame)) = Returned True"
    "frame_at (snd (transform (serving f) (holding text_frame)))
       (processed_data (snd (transform (serving f) (holding text_frame)))) =
     Some (finished [Stamp 1609459200] text_frame)"
    using transform_selected[of "holding text_frame" 0 "serving f"]
    by (simp_all add: holding_simps serving_simps c n d Let_def frame_at_def print_def)
qed

lemma text_finished:
  "series ''people_vaccinated'' (finished [Stamp 1609459200] text_frame) = [Str ''unknown'']"
  by (simp add: series_def finished_def text_frame_def reindex_same usa_row_def cell_def
        result_row_apply)

lemma bad_date_transform:
  "fst (transform (serving f) (holding bad_date_frame)) = Raised ValueError"
proof -
  have c: "set required_columns \<subseteq> set (columns bad_date_frame)"
    by (simp add: bad_date_frame_def)
  have d: "sample_to_datetime (series ''date'' bad_date_frame) = Inl ValueError"
    by (simp add: sample_to_datetime_def series_def bad_date_frame_def usa_row_def cell_def
          known_dates_def)
  show ?thesis
    using transform_selected[of "holding bad_date_frame" 0 "serving f"]
    by (simp add: holding_simps serving_simps c d Let_def)
qed

lemma holding_frame_at: "frame_at (holding f) (raw_data (holding f)) = Some f"
  by (simp add: frame_at_def holding_simps)

lemma served:
  "fst (extract (serving f) (before_extract (serving f) (new_pipeline u)))"
  "raw_data (before_transform (serving f) (new_pipeline u)) = Some 0"
  "heap (before_transform (serving f) (new_pipeline u)) = [f]"
  "heap (before_transform (serving f) (new_pipeline u)) ! 0 = f"
  "stdout (before_transform (serving f) (new_pipeline u)) = [Starting, Extracted (length (rows f))]"
  "calls (before_transform (serving f) (new_pipeline u)) = [Extract]"
  "files (before_transform (serving f) (new_pipeline u)) = (\<lambda>path. empty_db)"
  by (simp_all add: before_transform_def extract_eq first_response_def second_response_def
        serving_simps Let_def before_extract_simps print_def enter_def new_pipeline_def)

lemma not_found_failed:
  "\<not> fst (extract not_found (before_extract not_found (new_pipeline u)))"
  "stdout (before_transform not_found (new_pipeline u)) = [Starting, ExtractionError (HTTPError 404)]"
  "first_response not_found (before_extract not_found (new_pipeline u)) = Response 404 []"
  "requests (before_transform not_found (new_pipeline u)) = [u]"
  by (simp_all add: before_transform_def extract_eq first_response_def second_response_def
        not_found_def serving_def Let_def before_extract_simps print_def enter_def new_pipeline_def)

lemma changing_extract:
  "fst (extract changing (new_pipeline u))"
  "requests (snd (extract changing (new_pipeline u))) = [u, u]"
  "first_response changing (new_pipeline u) = Response 200 ''first''"
  "second_response changing (new_pipeline u) = Response 200 ''second''"
  "read_csv changing ''first'' = Inr \<lparr>columns = [''first''], rows = []\<rparr>"
  "read_csv changing ''second'' = Inr \<lparr>columns = [''second''], rows = []\<rparr>"
  "frame_at (snd (extract changing (new_pipeline u))) (raw_data (snd (extract changing (new_pipeline u)))) =
     Some \<lparr>columns = [''second''], rows = []\<rparr>"
  by (simp_all add: extract_eq first_response_def second_response_def changing_def
        header_only_csv_def Let_def print_def enter_def new_pipeline_def frame_at_def)

lemma bad_date_rejected:
  "set required_columns \<subseteq> set (columns bad_date_frame)"
  "sample_to_datetime (series ''date'' bad_date_frame) = Inl ValueError"
  by (simp_all add: sample_to_datetime_def series_def bad_date_frame_def usa_row_def cell_def
        known_dates_def)

lemma unpopulated_columns:
  "\<not> set required_columns \<subseteq> set (columns unpopulated_frame)"
  "filter (\<lambda>c. c \<notin> set (columns unpopulated_frame)) required_columns = [''population'']"
  by (simp_all add: unpopulated_frame_def required_columns_def)

lemma served_sample_transform:
  "fst (transform (serving sample_frame) (before_transform (serving sample_frame) (new_pipeline u))) =
     Returned True"
  by (rule transform_succeeds[where a = 0 and ds = sample_stamps])
     (simp_all add: served serving_simps sample_columns sample_dates sample_numeric)

text \<open>
  The whole run on the three sample rows: the table that reaches the database has the
  two rows with a location, with the rates 5 and 0.
\<close>

lemma sample_before_load:
  "frame_at (before_load (serving sample_frame) (new_pipeline u))
     (processed_data (before_load (serving sample_frame) (new_pipeline u))) =
     Some (finished sample_stamps sample_frame)"
  "files (before_load (serving sample_frame) (new_pipeline u)) = (\<lambda>path. empty_db)"
  "stdout (before_load (serving sample_frame) (new_pipeline u)) =
     [Starting, Extracted 3, AvailableColumns required_columns, Transformed 2]"
proof -
  let ?s = "before_transform (serving sample_frame) (new_pipeline u)"
  have eq: "transform (serving sample_frame) ?s =
      (Returned True,
       print (Transformed (length (rows (finished sample_stamps sample_frame))))
         ((print (AvailableColumns (columns sample_frame)) (enter Transform ?s))
            \<lparr>processed_data := Some 1,
             heap := [sample_frame, finished sample_stamps sample_frame]\<rparr>))"
    using transform_selected[of ?s 0 "serving sample_frame"]
    by (simp add: served serving_simps sample_columns sample_dates sample_numeric Let_def)
  show "frame_at (before_load (serving sample_frame) (new_pipeline u))
     (processed_data (before_load (serving sample_frame) (new_pipeline u))) =
     Some (finished sample_stamps sample_frame)"
    by (simp add: before_load_def eq frame_at_def print_def)
  show "files (before_load (serving sample_frame) (new_pipeline u)) = (\<lambda>path. empty_db)"
    by (simp add: before_load_def transform_effects served)
  show "stdout (before_load (serving sample_frame) (new_pipeline u)) =
     [Starting, Extracted 3, AvailableColumns required_columns, Transformed 2]"
    by (simp add: before_load_def eq print_def enter_def served sample_finished_rows)
       (simp add: sample_frame_def)
qed

lemma sample_rates:
  "series ''vaccination_rate'' (finished sample_stamps sample_frame) = [Num 5, Num 0]"
  "series ''location'' (finished sample_stamps sample_frame) = [Str ''USA'', Str ''FRA'']"
  by (simp_all add: series_def sample_finished_rows cell_def result_row_apply usa_row_def
        fra_row_def rint_def)

lemma sample_main:
  "fst (main (serving sample_frame)) = Returned True"
  "tables (files (snd (main (serving sample_frame))) default_db_path) =
     [''vaccination_data'' \<mapsto> finished sample_stamps sample_frame]"
  "indexes (files (snd (main (serving sample_frame))) default_db_path) =
     [''idx_location_date'' \<mapsto> (''vaccination_data'', [''location'', ''date''])]"
  "stdout (snd (main (serving sample_frame))) =
     [Starting, Extracted 3, AvailableColumns required_columns, Transformed 2,
      DataLoaded default_db_path, Completed 5]"
proof -
  let ?E = "serving sample_frame" and ?s0 = "new_pipeline owid_url"
  have cols: "{''location'', ''date''} \<subseteq> set (columns (finished sample_stamps sample_frame))"
    by (simp add: finished_def required_columns_def)
  have fresh: "files (before_load ?E ?s0) default_db_path = empty_db"
    by (simp add: sample_before_load)
  note l = load_new_file[OF sample_before_load(1)[of owid_url] fresh cols]
  have clk: "clock_reads ?s0 = 0"
    by (simp add: new_pipeline_def)
  have run: "run_etl_pipeline ?E ?s0 =
      (Returned True,
       print (Completed 5) (snd (now ?E (snd (load (before_load ?E ?s0) default_db_path)))))"
    by (simp add: run_eq served served_sample_transform l(1) serving_simps clk)
  show "fst (main ?E) = Returned True"
    by (simp add: main_def run)
  show "tables (files (snd (main ?E)) default_db_path) =
     [''vaccination_data'' \<mapsto> finished sample_stamps sample_frame]"
    by (simp add: main_def run print_def now_def l(2))
  show "indexes (files (snd (main ?E)) default_db_path) =
     [''idx_location_date'' \<mapsto> (''vaccination_data'', [''location'', ''date''])]"
    by (simp add: main_def run print_def now_def l(3))
  show "stdout (snd (main ?E)) =
     [Starting, Extracted 3, AvailableColumns required_columns, Transformed 2,
      DataLoaded default_db_path, Completed 5]"
    by (simp add: main_def run print_def now_def l(4) sample_before_load(3))
qed

section \<open>The vaccination rate\<close>



section \<open>The filled fields\<close>

text \<open>
  C2, as stated, fails where the source holds text in the column \<^verbatim>\<open>people_vaccinated\<close>:
  the column takes no part in the division, so \<^verbatim>\<open>transform\<close> succeeds, the fill
  replaces missing cells only, and the text stays in the processed frame.
\<close>

theorem people_vaccinated_text_counterexample:
  "fst (transform (serving text_frame) (holding text_frame)) = Returned True \<and>
   map_option (series ''people_vaccinated'')
     (frame_at (snd (transform (serving text_frame) (holding text_frame)))
        (processed_data (snd (transform (serving text_frame) (holding text_frame))))) =
     Some [Str ''unknown''] \<and>
   \<not> is_number (Str ''unknown'')"
  by (simp add: text_transform text_finished is_number_def)

text \<open>
  C2, amended. After a successful \<^verbatim>\<open>transform\<close>, in every row of the processed frame
  \<^verbatim>\<open>people_vaccinated\<close> is not missing, and \<^verbatim>\<open>people_fully_vaccinated\<close> and
  \<^verbatim>\<open>vaccination_rate\<close> are numbers. Row by row against the raw rows that have a location:
  \<^verbatim>\<open>people_vaccinated\<close> is a number where the raw cell was a float value or missing, and
  the rate is 0 where the raw row lacks the numerator or the population, because the fill
  runs after the rate is computed.
\<close>

theorem filled_fields_present:
  assumes "fst (transform e s) = Returned True" and "raw_data s = Some a"
      and "frame_at (snd (transform e s)) (processed_data (snd (transform e s))) = Some out"
  shows "(\<forall>r\<in>set (rows out).
              \<not> isna (cell r ''people_vaccinated'') \<and>
              is_number (cell r ''people_fully_vaccinated'') \<and>
              is_number (cell r ''vaccination_rate'')) \<and>
         list_all2
             (\<lambda>r0 r. (is_float (cell r0 ''people_vaccinated'') \<longrightarrow>
                         is_number (cell r ''people_vaccinated'')) \<and>
                      (isna (cell r0 ''people_fully_vaccinated'') \<or> isna (cell r0 ''population'') \<longrightarrow>
                         cell r ''vaccination_rate'' = Num 0))
             (filter (\<lambda>r0. \<not> isna (cell r0 ''location'')) (rows (heap s ! a))) (rows out)"
proof -
  from assms(1) obtain a' ds where a': "raw_data s = Some a'" and num: "numeric (heap s ! a')"
      and fr: "frame_at (snd (transform e s)) (processed_data (snd (transform e s))) =
                 Some (finished ds (heap s ! a'))"
    by (rule transform_True)
  from a' assms(2) have [simp]: "a' = a" by simp
  let ?raw = "heap s ! a"
  from fr assms(3) have out: "out = finished ds ?raw" by simp
  have made: "\<not> isna (cell (result_row (r0, d)) ''people_vaccinated'') \<and>
        is_number (cell (result_row (r0, d)) ''people_fully_vaccinated'') \<and>
        is_number (cell (result_row (r0, d)) ''vaccination_rate'') \<and>
        (is_float (cell r0 ''people_vaccinated'') \<longrightarrow>
           is_number (cell (result_row (r0, d)) ''people_vaccinated'')) \<and>
        (isna (cell r0 ''people_fully_vaccinated'') \<or> isna (cell r0 ''population'') \<longrightarrow>
           cell (result_row (r0, d)) ''vaccination_rate'' = Num 0)"
    if "r0 \<in> set (rows ?raw)" for r0 d
  proof -
    from num that have fl: "is_float (cell r0 ''people_fully_vaccinated'')"
        "is_float (cell r0 ''population'')"
      by (simp_all add: numeric_def)
    let ?v = "round2 (fmul (fdiv (cell r0 ''people_fully_vaccinated'') (cell r0 ''population'')) (Num 100))"
    have v: "is_float ?v" by (simp add: is_float_round2 is_float_fmul)
    have missing: "?v = NaN"
      if "isna (cell r0 ''people_fully_vaccinated'') \<or> isna (cell r0 ''population'')"
      using that fl by (auto simp: isna_float fdiv_NaN)
    from v have "isna ?v \<longleftrightarrow> ?v = NaN" by (rule isna_float)
    with fl v missing show ?thesis
      by (auto simp: cell_def[of "result_row (r0, d)"] result_row_apply Let_def is_number_def)
  qed
  have "\<forall>r\<in>set (rows (finished ds ?raw)).
              \<not> isna (cell r ''people_vaccinated'') \<and>
              is_number (cell r ''people_fully_vaccinated'') \<and>
              is_number (cell r ''vaccination_rate'')"
    using made by (blast elim: finished_rows_D)
  moreover have "list_all2
             (\<lambda>r0 r. (is_float (cell r0 ''people_vaccinated'') \<longrightarrow>
                         is_number (cell r ''people_vaccinated'')) \<and>
                      (isna (cell r0 ''people_fully_vaccinated'') \<or> isna (cell r0 ''population'') \<longrightarrow>
                         cell r ''vaccination_rate'' = Num 0))
             (filter (\<lambda>r0. \<not> isna (cell r0 ''location'')) (rows ?raw)) (rows (finished ds ?raw))"
    by (rule list.rel_mono_strong[OF finished_rows_all2]) (use made in auto)
  ultimately show ?thesis using out by simp
qed

theorem filled_fields_present_witness:
  "fst (transform (serving sample_frame) (holding sample_frame)) = Returned True \<and>
   raw_data (holding sample_frame) = Some 0 \<and>
   frame_at (snd (transform (serving sample_frame) (holding sample_frame)))
     (processed_data (snd (transform (serving sample_frame) (holding sample_frame)))) =
     Some (finished sample_stamps sample_frame) \<and>
   rows (finished sample_stamps sample_frame) =
     [result_row (usa_row, Stamp 1609459200), result_row (fra_row, Stamp 1609459200)] \<and>
   \<not> isna (cell (result_row (fra_row, Stamp 1609459200)) ''people_vaccinated'') \<and>
   is_number (cell (result_row (fra_row, Stamp 1609459200)) ''people_fully_vaccinated'') \<and>
   is_number (cell (result_row (fra_row, Stamp 1609459200)) ''vaccination_rate'') \<and>
   list_all2
     (\<lambda>r0 r. (is_float (cell r0 ''people_vaccinated'') \<longrightarrow> is_number (cell r ''people_vaccinated'')) \<and>
              (isna (cell r0 ''people_fully_vaccinated'') \<or> isna (cell r0 ''population'') \<longrightarrow>
                 cell r ''vaccination_rate'' = Num 0))
     [usa_row, fra_row]
     [result_row (usa_row, Stamp 1609459200), result_row (fra_row, Stamp 1609459200)] \<and>
   isna (cell fra_row ''people_fully_vaccinated'') \<and>
   cell (result_row (fra_row, Stamp 1609459200)) ''vaccination_rate'' = Num 0"
proof -
  note h1 = sample_transform(1)[of sample_frame] and h3 = sample_transform(2)[of sample_frame]
  have h2: "raw_data (holding sample_frame) = Some 0" by (simp add: holding_simps)
  have fra: "isna (cell fra_row ''people_fully_vaccinated'')"
    by (simp add: fra_row_def cell_def)
  note c = filled_fields_present[OF h1 h2 h3,
      unfolded holding_simps(3) sample_finished_rows sample_located]
  from c have every: "\<forall>r\<in>set [result_row (usa_row, Stamp 1609459200),
                                result_row (fra_row, Stamp 1609459200)].
      \<not> isna (cell r ''people_vaccinated'') \<and>
      is_number (cell r ''people_fully_vaccinated'') \<and>
      is_number (cell r ''vaccination_rate'')"
    by (rule conjunct1)
  have "result_row (fra_row, Stamp 1609459200) \<in>
      set [result_row (usa_row, Stamp 1609459200), result_row (fra_row, Stamp 1609459200)]"
    by simp
  with every have one:
    "\<not> isna (cell (result_row (fra_row, Stamp 1609459200)) ''people_vaccinated'') \<and>
     is_number (cell (result_row (fra_row, Stamp 1609459200)) ''people_fully_vaccinated'') \<and>
     is_number (cell (result_row (fra_row, Stamp 1609459200)) ''vaccination_rate'')"
    by (rule bspec)
  from c have pairs: "list_all2
     (\<lambda>r0 r. (is_float (cell r0 ''people_vaccinated'') \<longrightarrow> is_number (cell r ''people_vaccinated'')) \<and>
              (isna (cell r0 ''people_fully_vaccinated'') \<or> isna (cell r0 ''population'') \<longrightarrow>
                 cell r ''vaccination_rate'' = Num 0))
     [usa_row, fra_row]
     [result_row (usa_row, Stamp 1609459200), result_row (fra_row, Stamp 1609459200)]"
    by (rule conjunct2)
  from h1 h2 h3 sample_finished_rows one pairs fra fra_result(4)[of "Stamp 1609459200"]
  show ?thesis
    by (elim conjE, intro conjI) assumption+
qed

section \<open>The dropped rows\<close>

text \<open>
  C3. For a raw frame with the five required columns, \<^verbatim>\<open>transform\<close> does not return
  failure, and when it returns success the processed frame has no row with a missing
  location and has exactly one row for each raw row with a location, in order, with the
  same location and population and the filled counts.
\<close>

theorem only_unlocated_rows_dropped:
  assumes "raw_data s = Some a" and "set required_columns \<subseteq> set (columns (heap s ! a))"
  shows "fst (transform e s) \<noteq> Returned False \<and>
    (fst (transform e s) = Returned True \<longrightarrow>
      (\<exists>out. frame_at (snd (transform e s)) (processed_data (snd (transform e s))) = Some out \<and>
         (\<forall>r\<in>set (rows out). \<not> isna (cell r ''location'')) \<and>
         length (rows out) = length (filter (\<lambda>r0. \<not> isna (cell r0 ''location'')) (rows (heap s ! a))) \<and>
         list_all2
           (\<lambda>r0 r. cell r ''location'' = cell r0 ''location'' \<and>
                    cell r ''population'' = cell r0 ''population'' \<and>
                    cell r ''people_vaccinated'' =
                      (if isna (cell r0 ''people_vaccinated'') then Num 0
                       else cell r0 ''people_vaccinated'') \<and>
                    cell r ''people_fully_vaccinated'' =
                      (if isna (cell r0 ''people_fully_vaccinated'') then Num 0
                       else cell r0 ''people_fully_vaccinated''))
           (filter (\<lambda>r0. \<not> isna (cell r0 ''location'')) (rows (heap s ! a))) (rows out)))"
proof (intro conjI impI)
  show "fst (transform e s) \<noteq> Returned False"
    using assms by (rule transform_not_False)
next
  assume "fst (transform e s) = Returned True"
  then obtain a' ds where a': "raw_data s = Some a'"
      and fr: "frame_at (snd (transform e s)) (processed_data (snd (transform e s))) =
                 Some (finished ds (heap s ! a'))"
    by (rule transform_True)
  from a' assms(1) have [simp]: "a' = a" by simp
  let ?raw = "heap s ! a"
  let ?located = "filter (\<lambda>r0. \<not> isna (cell r0 ''location'')) (rows ?raw)"
  let ?same = "\<lambda>r0 r. cell r ''location'' = cell r0 ''location'' \<and>
                    cell r ''population'' = cell r0 ''population'' \<and>
                    cell r ''people_vaccinated'' =
                      (if isna (cell r0 ''people_vaccinated'') then Num 0
                       else cell r0 ''people_vaccinated'') \<and>
                    cell r ''people_fully_vaccinated'' =
                      (if isna (cell r0 ''people_fully_vaccinated'') then Num 0
                       else cell r0 ''people_fully_vaccinated'')"
  have made: "?same r0 (result_row (r0, d))" for r0 d
    by (simp add: cell_def[of "result_row (r0, d)"] result_row_apply) (simp add: cell_def)
  have all2: "list_all2 ?same ?located (rows (finished ds ?raw))"
    by (rule list_all2_mono[OF finished_rows_all2]) (use made in auto)
  then have len: "length (rows (finished ds ?raw)) = length ?located"
    by (simp add: list_all2_lengthD)
  have loc: "\<forall>r\<in>set (rows (finished ds ?raw)). \<not> isna (cell r ''location'')"
  proof
    fix r assume "r \<in> set (rows (finished ds ?raw))"
    then obtain r0 d where "\<not> isna (cell r0 ''location'')" "r = result_row (r0, d)"
      by (rule finished_rows_D)
    with made[of r0 d] show "\<not> isna (cell r ''location'')" by simp
  qed
  from fr loc len all2
  show "\<exists>out. frame_at (snd (transform e s)) (processed_data (snd (transform e s))) = Some out \<and>
         (\<forall>r\<in>set (rows out). \<not> isna (cell r ''location'')) \<and>
         length (rows out) = length ?located \<and> list_all2 ?same ?located (rows out)"
    by simp
qed

theorem only_unlocated_rows_dropped_witness:
  "raw_data (holding sample_frame) = Some 0 \<and>
   set required_columns \<subseteq> set (columns (heap (holding sample_frame) ! 0)) \<and>
   fst (transform (serving sample_frame) (holding sample_frame)) = Returned True \<and>
   (\<exists>out. frame_at (snd (transform (serving sample_frame) (holding sample_frame)))
             (processed_data (snd (transform (serving sample_frame) (holding sample_frame)))) =
           Some out \<and>
      (\<forall>r\<in>set (rows out). \<not> isna (cell r ''location'')) \<and>
      length (rows out) = length [usa_row, fra_row] \<and>
      list_all2
        (\<lambda>r0 r. cell r ''location'' = cell r0 ''location'' \<and>
                 cell r ''population'' = cell r0 ''population'' \<and>
                 cell r ''people_vaccinated'' =
                   (if isna (cell r0 ''people_vaccinated'') then Num 0
                    else cell r0 ''people_vaccinated'') \<and>
                 cell r ''people_fully_vaccinated'' =
                   (if isna (cell r0 ''people_fully_vaccinated'') then Num 0
                    else cell r0 ''people_fully_vaccinated''))
        [usa_row, fra_row] (rows out))"
proof -
  have h1: "raw_data (holding sample_frame) = Some 0" by (simp add: holding_simps)
  have h2: "set required_columns \<subseteq> set (columns (heap (holding sample_frame) ! 0))"
    by (simp add: holding_simps sample_columns)
  note h3 = sample_transform(1)[of sample_frame]
  note c = only_unlocated_rows_dropped[OF h1 h2, of "serving sample_frame", THEN conjunct2,
      THEN mp, OF h3, unfolded holding_simps(3) sample_located]
  from h1 h2 h3 c show ?thesis
    by (intro conjI) assumption+
qed

section \<open>The raw data\<close>

text \<open>
  C10. \<^verbatim>\<open>transform\<close> never changes the raw data, whatever its outcome: the field
  \<open>raw_data\<close> refers to the same object, no object that existed before the call is
  changed, and so the frame that \<open>raw_data\<close> refers to is the same frame after the call.
  The selection is a new object, and the later steps update that one.
\<close>

theorem transform_keeps_raw_data:
  "raw_data (snd (transform e s)) = raw_data s \<and>
   (\<forall>a<length (heap s). heap (snd (transform e s)) ! a = heap s ! a) \<and>
   (\<forall>raw. frame_at s (raw_data s) = Some raw \<longrightarrow>
      frame_at (snd (transform e s)) (raw_data (snd (transform e s))) = Some raw)"
proof -
  obtain fs where fs: "heap (snd (transform e s)) = heap s @ fs"
    using transform_effects(7) by blast
  have r: "raw_data (snd (transform e s)) = raw_data s"
    by (rule transform_effects(1))
  from fs have old: "\<forall>a<length (heap s). heap (snd (transform e s)) ! a = heap s ! a"
    by (simp add: nth_append)
  from fs r old show ?thesis
    by (auto simp: frame_at_def split: option.splits if_splits)
qed

theorem transform_keeps_raw_data_witness:
  "frame_at (holding sample_frame) (raw_data (holding sample_frame)) = Some sample_frame \<and>
   fst (transform (serving sample_frame) (holding sample_frame)) = Returned True \<and>
   frame_at (snd (transform (serving sample_frame) (holding sample_frame)))
     (raw_data (snd (transform (serving sample_frame) (holding sample_frame)))) = Some sample_frame \<and>
   frame_at (holding bad_date_frame) (raw_data (holding bad_date_frame)) = Some bad_date_frame \<and>
   fst (transform (serving sample_frame) (holding bad_date_frame)) = Raised ValueError \<and>
   frame_at (snd (transform (serving sample_frame) (holding bad_date_frame)))
     (raw_data (snd (transform (serving sample_frame) (holding bad_date_frame)))) = Some bad_date_frame"
proof -
  note a1 = holding_frame_at[of sample_frame] and b1 = holding_frame_at[of bad_date_frame]
  note a2 = transform_keeps_raw_data[of "serving sample_frame" "holding sample_frame",
      THEN conjunct2, THEN conjunct2, THEN spec, THEN mp, OF a1]
  note b2 = transform_keeps_raw_data[of "serving sample_frame" "holding bad_date_frame",
      THEN conjunct2, THEN conjunct2, THEN spec, THEN mp, OF b1]
  from a1 a2 b1 b2 sample_transform(1)[of sample_frame] bad_date_transform[of sample_frame]
  show ?thesis by (intro conjI) assumption+
qed

section \<open>Loading twice\<close>



section \<open>The order of the stages\<close>

text \<open>
  C5. In a run of the pipeline, when \<^verbatim>\<open>extract\<close> returns failure the run returns failure
  and \<^verbatim>\<open>extract\<close> is the only stage that was called; when \<^verbatim>\<open>extract\<close> succeeds and
  \<^verbatim>\<open>transform\<close> returns failure, the run returns failure and \<^verbatim>\<open>load\<close> was not called.
  In both cases no database file is touched.
\<close>

theorem pipeline_short_circuits:
  "(\<not> fst (extract e (before_extract e s0)) \<longrightarrow>
      fst (run_etl_pipeline e s0) = Returned False \<and>
      calls (snd (run_etl_pipeline e s0)) = calls s0 @ [Extract] \<and>
      files (snd (run_etl_pipeline e s0)) = files s0) \<and>
   (fst (extract e (before_extract e s0)) \<and>
    fst (transform e (before_transform e s0)) = Returned False \<longrightarrow>
      fst (run_etl_pipeline e s0) = Returned False \<and>
      calls (snd (run_etl_pipeline e s0)) = calls s0 @ [Extract, Transform] \<and>
      files (snd (run_etl_pipeline e s0)) = files s0)"
  by (simp add: run_eq before_load_def before_transform_def extract_effects transform_effects
        before_extract_simps)

theorem pipeline_short_circuits_witness:
  "\<not> fst (extract not_found (before_extract not_found (new_pipeline owid_url))) \<and>
   fst (run_etl_pipeline not_found (new_pipeline owid_url)) = Returned False \<and>
   calls (snd (run_etl_pipeline not_found (new_pipeline owid_url))) =
     calls (new_pipeline owid_url) @ [Extract] \<and>
   fst (extract (serving unpopulated_frame)
          (before_extract (serving unpopulated_frame) (new_pipeline owid_url))) \<and>
   fst (transform (serving unpopulated_frame)
          (before_transform (serving unpopulated_frame) (new_pipeline owid_url))) = Returned False \<and>
   fst (run_etl_pipeline (serving unpopulated_frame) (new_pipeline owid_url)) = Returned False \<and>
   calls (snd (run_etl_pipeline (serving unpopulated_frame) (new_pipeline owid_url))) =
     calls (new_pipeline owid_url) @ [Extract, Transform]"
proof -
  note a1 = not_found_failed(1)[of owid_url]
  note a = pipeline_short_circuits[of not_found "new_pipeline owid_url", THEN conjunct1, THEN mp, OF a1]
  note b1 = served(1)[of unpopulated_frame owid_url]
  have b2: "fst (transform (serving unpopulated_frame)
          (before_transform (serving unpopulated_frame) (new_pipeline owid_url))) = Returned False"
    using transform_missing[of "before_transform (serving unpopulated_frame) (new_pipeline owid_url)" 0
        "serving unpopulated_frame"]
    by (simp add: served unpopulated_columns)
  note b = pipeline_short_circuits[of "serving unpopulated_frame" "new_pipeline owid_url",
      THEN conjunct2, THEN mp, OF conjI[OF b1 b2]]
  from a1 a b1 b2 b show ?thesis
    by (elim conjE, intro conjI) assumption+
qed

section \<open>A missing column\<close>

text \<open>
  C6. When the raw frame lacks one of the five required columns, \<^verbatim>\<open>transform\<close> returns
  failure; it prints the list of all columns of the raw frame first, and then the
  \<^verbatim>\<open>KeyError\<close>, which names exactly the required columns that are absent; it writes to no
  database; and a run of the pipeline that reaches \<^verbatim>\<open>transform\<close> in this state returns
  failure without calling \<^verbatim>\<open>load\<close>, with every database file as it was.
\<close>

theorem missing_column_reported:
  assumes "raw_data s = Some a" and "\<not> set required_columns \<subseteq> set (columns (heap s ! a))"
  shows "fst (transform e s) = Returned False \<and>
    stdout (snd (transform e s)) =
      stdout s @
        [AvailableColumns (columns (heap s ! a)),
         MissingColumn (KeyError (filter (\<lambda>c. c \<notin> set (columns (heap s ! a))) required_columns)),
         PleaseCheckColumnName] \<and>
    filter (\<lambda>c. c \<notin> set (columns (heap s ! a))) required_columns \<noteq> [] \<and>
    set (filter (\<lambda>c. c \<notin> set (columns (heap s ! a))) required_columns) =
      set required_columns - set (columns (heap s ! a)) \<and>
    files (snd (transform e s)) = files s \<and>
    (\<forall>s0. fst (extract e (before_extract e s0)) \<and> before_transform e s0 = s \<longrightarrow>
       fst (run_etl_pipeline e s0) = Returned False \<and>
       files (snd (run_etl_pipeline e s0)) = files s0 \<and>
       calls (snd (run_etl_pipeline e s0)) = calls s0 @ [Extract, Transform])"
proof -
  note t = transform_missing[OF assms, of e]
  have a: "fst (transform e s) = Returned False" by (simp add: t)
  have b: "stdout (snd (transform e s)) =
      stdout s @
        [AvailableColumns (columns (heap s ! a)),
         MissingColumn (KeyError (filter (\<lambda>c. c \<notin> set (columns (heap s ! a))) required_columns)),
         PleaseCheckColumnName]"
    by (simp add: t print_def enter_def)
  have c: "filter (\<lambda>c. c \<notin> set (columns (heap s ! a))) required_columns \<noteq> []"
    using assms(2) by (auto simp: filter_empty_conv)
  have d: "set (filter (\<lambda>c. c \<notin> set (columns (heap s ! a))) required_columns) =
      set required_columns - set (columns (heap s ! a))"
    by auto
  have f: "files (snd (transform e s)) = files s" by (rule transform_effects)
  have g: "fst (run_etl_pipeline e s0) = Returned False \<and>
       files (snd (run_etl_pipeline e s0)) = files s0 \<and>
       calls (snd (run_etl_pipeline e s0)) = calls s0 @ [Extract, Transform]"
    if "fst (extract e (before_extract e s0)) \<and> before_transform e s0 = s" for s0
  proof -
    from that have s: "s = before_transform e s0" and ok: "fst (extract e (before_extract e s0))"
      by simp_all
    show ?thesis
      using a ok unfolding s
      by (simp add: run_eq before_load_def transform_effects before_transform_simps)
  qed
  from a b c d f g show ?thesis by blast
qed

theorem missing_column_reported_witness:
  "raw_data (before_transform (serving unpopulated_frame) (new_pipeline owid_url)) = Some 0 \<and>
   \<not> set required_columns \<subseteq>
       set (columns (heap (before_transform (serving unpopulated_frame) (new_pipeline owid_url)) ! 0)) \<and>
   fst (transform (serving unpopulated_frame)
          (before_transform (serving unpopulated_frame) (new_pipeline owid_url))) = Returned False \<and>
   stdout (snd (transform (serving unpopulated_frame)
                  (before_transform (serving unpopulated_frame) (new_pipeline owid_url)))) =
     [Starting, Extracted 1,
      AvailableColumns [''location'', ''date'', ''people_vaccinated'', ''people_fully_vaccinated''],
      MissingColumn (KeyError [''population'']), PleaseCheckColumnName] \<and>
   fst (main (serving unpopulated_frame)) = Returned False \<and>
   files (snd (main (serving unpopulated_frame))) = files (new_pipeline owid_url) \<and>
   calls (snd (main (serving unpopulated_frame))) = [Extract, Transform]"
proof -
  let ?E = "serving unpopulated_frame"
  let ?s = "before_transform ?E (new_pipeline owid_url)"
  note h1 = served(2)[of unpopulated_frame owid_url]
  have h2: "\<not> set required_columns \<subseteq> set (columns (heap ?s ! 0))"
    by (simp only: served(4) unpopulated_columns(1) not_False_eq_True)
  note c = missing_column_reported[OF h1 h2, of ?E]
  from c have c1: "fst (transform ?E ?s) = Returned False" by (rule conjunct1)
  from c have "stdout (snd (transform ?E ?s)) =
      stdout ?s @
        [AvailableColumns (columns (heap ?s ! 0)),
         MissingColumn (KeyError (filter (\<lambda>c. c \<notin> set (columns (heap ?s ! 0))) required_columns)),
         PleaseCheckColumnName]"
    by (elim conjE)
  then have c2: "stdout (snd (transform ?E ?s)) =
     [Starting, Extracted 1,
      AvailableColumns [''location'', ''date'', ''people_vaccinated'', ''people_fully_vaccinated''],
      MissingColumn (KeyError [''population'']), PleaseCheckColumnName]"
    by (simp add: served unpopulated_columns(2)) (simp add: unpopulated_frame_def)
  from c have "\<forall>s0. fst (extract ?E (before_extract ?E s0)) \<and> before_transform ?E s0 = ?s \<longrightarrow>
       fst (run_etl_pipeline ?E s0) = Returned False \<and>
       files (snd (run_etl_pipeline ?E s0)) = files s0 \<and>
       calls (snd (run_etl_pipeline ?E s0)) = calls s0 @ [Extract, Transform]"
    by (elim conjE)
  then have "fst (run_etl_pipeline ?E (new_pipeline owid_url)) = Returned False \<and>
       files (snd (run_etl_pipeline ?E (new_pipeline owid_url))) = files (new_pipeline owid_url) \<and>
       calls (snd (run_etl_pipeline ?E (new_pipeline owid_url))) =
         calls (new_pipeline owid_url) @ [Extract, Transform]"
    using served(1)[of unpopulated_frame owid_url] by blast
  then have c3: "fst (main ?E) = Returned False \<and>
      files (snd (main ?E)) = files (new_pipeline owid_url) \<and>
      calls (snd (main ?E)) = [Extract, Transform]"
    by (simp add: main_def) (simp add: new_pipeline_def)
  from h1 h2 c1 c2 c3 show ?thesis
    by (elim conjE, intro conjI) assumption+
qed

section \<open>The report of the duration\<close>




section \<open>Exceptions that leave transform\<close>

text \<open>
  C8. The two other stages catch every exception; \<^verbatim>\<open>transform\<close> catches the
  \<^verbatim>\<open>KeyError\<close> of the selection only. With a date that the parser rejects,
  \<^verbatim>\<open>transform\<close> raises \<^verbatim>\<open>ValueError\<close>, and so does the whole run: the caller gets an
  exception, not a boolean.
\<close>

theorem unparseable_date_raises:
  "fst (transform (serving bad_date_frame) (holding bad_date_frame)) = Raised ValueError \<and>
   fst (main (serving bad_date_frame)) = Raised ValueError"
proof -
  have "fst (transform (serving bad_date_frame)
               (before_transform (serving bad_date_frame) (new_pipeline owid_url))) = Raised ValueError"
    by (rule transform_raises[where a = 0]) (simp_all add: served serving_simps bad_date_rejected)
  then have "fst (main (serving bad_date_frame)) = Raised ValueError"
    by (simp add: main_def run_eq served)
  then show ?thesis
    by (simp add: bad_date_transform)
qed

section \<open>The requests of extract\<close>

text \<open>
  C9, as stated, fails: \<^verbatim>\<open>extract\<close> sends two requests, and the frame comes from the body
  of the second response. Where the first response has the body \<^verbatim>\<open>first\<close> and the second
  the body \<^verbatim>\<open>second\<close>, the raw data is the table parsed from \<^verbatim>\<open>second\<close>.
\<close>

theorem second_request_counterexample:
  "fst (extract changing (new_pipeline owid_url)) \<and>
   requests (snd (extract changing (new_pipeline owid_url))) = [owid_url, owid_url] \<and>
   first_response changing (new_pipeline owid_url) = Response 200 ''first'' \<and>
   read_csv changing ''first'' = Inr \<lparr>columns = [''first''], rows = []\<rparr> \<and>
   frame_at (snd (extract changing (new_pipeline owid_url)))
     (raw_data (snd (extract changing (new_pipeline owid_url)))) =
     Some \<lparr>columns = [''second''], rows = []\<rparr>"
  by (simp add: changing_extract)

text \<open>
  C9, amended. \<^verbatim>\<open>extract\<close> sends a request to the configured URL and fails on a status
  from 400 to 599, without a second request. Otherwise \<^verbatim>\<open>read_csv\<close> requests the same URL
  again; \<^verbatim>\<open>extract\<close> succeeds exactly when that second response has a status from 200
  to 299 and a body that parses, and the raw data is then the table parsed from the body
  of the second response. A failed \<^verbatim>\<open>extract\<close> leaves the raw data as it was.
\<close>

theorem extract_requests_twice:
  "(fst (extract e s) \<longleftrightarrow>
      (\<exists>st b st2 b2 f.
         first_response e s = Response st b \<and> \<not> (400 \<le> st \<and> st < 600) \<and>
         second_response e s = Response st2 b2 \<and> 200 \<le> st2 \<and> st2 < 300 \<and>
         read_csv e b2 = Inr f)) \<and>
   (fst (extract e s) \<longrightarrow>
      requests (snd (extract e s)) = requests s @ [url s, url s] \<and>
      (\<exists>st2 b2 f.
         second_response e s = Response st2 b2 \<and> read_csv e b2 = Inr f \<and>
         frame_at (snd (extract e s)) (raw_data (snd (extract e s))) = Some f)) \<and>
   (\<not> fst (extract e s) \<longrightarrow>
      raw_data (snd (extract e s)) = raw_data s \<and> heap (snd (extract e s)) = heap s) \<and>
   ((\<exists>st b. first_response e s = Response st b \<and> 400 \<le> st \<and> st < 600) \<longrightarrow>
      \<not> fst (extract e s) \<and> requests (snd (extract e s)) = requests s @ [url s])"
proof (intro conjI)
  show "fst (extract e s) \<longleftrightarrow>
      (\<exists>st b st2 b2 f.
         first_response e s = Response st b \<and> \<not> (400 \<le> st \<and> st < 600) \<and>
         second_response e s = Response st2 b2 \<and> 200 \<le> st2 \<and> st2 < 300 \<and>
         read_csv e b2 = Inr f)"
    by (auto simp: extract_eq Let_def split: http_result.splits sum.splits)
  show "fst (extract e s) \<longrightarrow>
      requests (snd (extract e s)) = requests s @ [url s, url s] \<and>
      (\<exists>st2 b2 f.
         second_response e s = Response st2 b2 \<and> read_csv e b2 = Inr f \<and>
         frame_at (snd (extract e s)) (raw_data (snd (extract e s))) = Some f)"
    by (auto simp: extract_eq Let_def print_def enter_def frame_at_def
          split: http_result.splits sum.splits)
  show "\<not> fst (extract e s) \<longrightarrow>
      raw_data (snd (extract e s)) = raw_data s \<and> heap (snd (extract e s)) = heap s"
    using extract_failed by blast
  show "(\<exists>st b. first_response e s = Response st b \<and> 400 \<le> st \<and> st < 600) \<longrightarrow>
      \<not> fst (extract e s) \<and> requests (snd (extract e s)) = requests s @ [url s]"
    by (auto simp: extract_eq Let_def print_def enter_def)
qed

theorem extract_requests_twice_witness:
  "fst (extract changing (new_pipeline owid_url)) \<and>
   requests (snd (extract changing (new_pipeline owid_url))) =
     requests (new_pipeline owid_url) @ [url (new_pipeline owid_url), url (new_pipeline owid_url)] \<and>
   (\<exists>st2 b2 f.
      second_response changing (new_pipeline owid_url) = Response st2 b2 \<and>
      read_csv changing b2 = Inr f \<and>
      frame_at (snd (extract changing (new_pipeline owid_url)))
        (raw_data (snd (extract changing (new_pipeline owid_url)))) = Some f) \<and>
   first_response not_found (before_extract not_found (new_pipeline owid_url)) = Response 404 [] \<and>
   \<not> fst (extract not_found (before_extract not_found (new_pipeline owid_url))) \<and>
   requests (snd (extract not_found (before_extract not_found (new_pipeline owid_url)))) =
     requests (before_extract not_found (new_pipeline owid_url)) @
       [url (before_extract not_found (new_pipeline owid_url))]"
proof -
  note ok = changing_extract(1)[of owid_url]
  note a = extract_requests_twice[of changing "new_pipeline owid_url", THEN conjunct2,
      THEN conjunct1, THEN mp, OF ok]
  note r = not_found_failed(3)[of owid_url]
  have "\<exists>st b. first_response not_found (before_extract not_found (new_pipeline owid_url)) =
          Response st b \<and> 400 \<le> st \<and> st < 600"
    using r by simp
  note b = extract_requests_twice[of not_found "before_extract not_found (new_pipeline owid_url)",
      THEN conjunct2, THEN conjunct2, THEN conjunct2, THEN mp, OF this]
  from ok a r b show ?thesis
    by (elim conjE, intro conjI) assumption+
qed

end
